theory Spec2Isabelle
  imports Main
begin

section \<open>Regular expressions as script.js uses them\<close>

text \<open>
  A string is a list of characters, one per code unit; the characters are the code
  units below 256, among which the line terminators are LF and CR and the white space
  is TAB, LF, VT, FF, CR, SP and NBSP. Every pattern of script.js is an
  alternation of sequences of three kinds of atoms: a literal run of characters, a
  character class under \<open>+\<close>, and a character class under \<open>*\<close>. The classes that occur
  are \<open>\d\<close>, \<open>[\w.-]\<close>, \<open>[\w-]\<close> and the dot, which matches everything but a line
  terminator. No pattern carries a flag or an anchor, so \<open>test\<close> looks for a match that
  starts at any index of the string.
\<close>

datatype char_class = Digit | WordDotDash | WordDash | Dot

datatype atom = Lit string | Plus char_class | Star char_class

type_synonym regex = "atom list list"

definition is_digit :: "char \<Rightarrow> bool" where
  "is_digit c = (c \<in> set ''0123456789'')"

definition is_word :: "char \<Rightarrow> bool" where
  "is_word c =
     (c \<in> set ''abcdefghijklmnopqrstuvwxyzABCDEFGHIJKLMNOPQRSTUVWXYZ0123456789_'')"

definition is_line_terminator :: "char \<Rightarrow> bool" where
  "is_line_terminator c = (c = CHR 0x0A \<or> c = CHR 0x0D)"

fun in_class :: "char_class \<Rightarrow> char \<Rightarrow> bool" where
  "in_class Digit c = is_digit c"
| "in_class WordDotDash c = (is_word c \<or> c = CHR ''.'' \<or> c = CHR ''-'')"
| "in_class WordDash c = (is_word c \<or> c = CHR ''-'')"
| "in_class Dot c = (\<not> is_line_terminator c)"

text \<open>
  \<open>match_here p s\<close>: some prefix of \<open>s\<close> matches the sequence \<open>p\<close>. A quantified class
  first tries to take one more character and then gives it back, as the backtracking
  matcher of the engine does.
\<close>

fun match_here :: "atom list \<Rightarrow> string \<Rightarrow> bool" where
  "match_here [] s = True"
| "match_here (Lit l # r) s = (take (length l) s = l \<and> match_here r (drop (length l) s))"
| "match_here (Plus k # r) [] = False"
| "match_here (Plus k # r) (c # s) = (in_class k c \<and> match_here (Star k # r) s)"
| "match_here (Star k # r) [] = match_here r []"
| "match_here (Star k # r) (c # s) =
     ((in_class k c \<and> match_here (Star k # r) s) \<or> match_here r (c # s))"

fun search :: "atom list \<Rightarrow> string \<Rightarrow> bool" where
  "search p [] = match_here p []"
| "search p (c # s) = (match_here p (c # s) \<or> search p s)"

definition regex_test :: "regex \<Rightarrow> string \<Rightarrow> bool" where
  "regex_test alts s = list_ex (\<lambda>p. search p s) alts"

section \<open>isValidTikTokUrl\<close>

definition patterns :: "regex list" where
  "patterns =
    [ [[Lit ''tiktok.com/@'', Plus WordDotDash, Lit ''/video/'', Plus Digit]],
      [[Lit ''tiktok.com/'', Star Dot, Lit ''/video/'', Plus Digit]],
      [[Lit ''tiktok.com/@'', Plus WordDotDash, Lit ''/photo/'', Plus Digit]],
      [[Lit ''tiktok.com/'', Star Dot, Lit ''/photo/'', Plus Digit]],
      [[Lit ''vm.tiktok.com/'', Plus WordDash]],
      [[Lit ''vt.tiktok.com/'', Plus WordDash]],
      [[Lit ''tiktok.com/t/'', Plus WordDash]] ]"

definition isValidTikTokUrl :: "string \<Rightarrow> bool" where
  "isValidTikTokUrl url = list_ex (\<lambda>pattern. regex_test pattern url) patterns"


section \<open>Values of the lookup API's response\<close>

text \<open>
  A field of the JSON response is absent (\<open>Undefined\<close>), \<open>null\<close> or carries a value
  of the type the API documents for it. \<open>truthy_str\<close> is the truthiness of a string
  field, \<open>js_or\<close> the operator \<open>||\<close> between two of them, \<open>or_else\<close> the operator
  \<open>||\<close> with a string literal on its right, and \<open>opt_get\<close> the optional chaining
  \<open>?.\<close> of a property.
\<close>

datatype 'a js = Undefined | Null | Val 'a

fun truthy_str :: "string js \<Rightarrow> bool" where
  "truthy_str (Val s) = (s \<noteq> [])"
| "truthy_str Undefined = False"
| "truthy_str Null = False"

fun truthy_bool :: "bool js \<Rightarrow> bool" where
  "truthy_bool (Val b) = b"
| "truthy_bool Undefined = False"
| "truthy_bool Null = False"

definition js_or :: "string js \<Rightarrow> string js \<Rightarrow> string js" where
  "js_or a b = (if truthy_str a then a else b)"

fun or_else :: "string js \<Rightarrow> string \<Rightarrow> string" where
  "or_else (Val s) d = (if s \<noteq> [] then s else d)"
| "or_else Undefined d = d"
| "or_else Null d = d"

fun opt_get :: "('o \<Rightarrow> 'a js) \<Rightarrow> 'o js \<Rightarrow> 'a js" where
  "opt_get f (Val obj) = f obj"
| "opt_get f Undefined = Undefined"
| "opt_get f Null = Undefined"

text \<open>The object a successful lookup returns.\<close>

record media_result =
  title :: string
  author :: string
  thumbnail :: "string js"
  videoUrl :: "string js"
  images :: "string list js"
  isPhoto :: "bool js"
  duration :: "int js"

text \<open>The response of the lookup API.\<close>

record author_obj =
  unique_id :: "string js"
  nickname :: "string js"

record api_data =
  title :: "string js"
  author :: "author_obj js"
  cover :: "string js"
  origin_cover :: "string js"
  images :: "string list js"
  hdplay :: "string js"
  play :: "string js"
  wmplay :: "string js"
  duration :: "int js"

record api_result =
  code :: "int js"
  msg :: "string js"
  data :: "api_data js"

record js_error =
  name :: string
  message :: string

definition Error :: "string \<Rightarrow> js_error" where
  "Error m = \<lparr>name = ''Error'', message = m\<rparr>"

text \<open>
  Reading a property of \<open>undefined\<close> or \<open>null\<close> throws a TypeError; the text of its
  message is the engine's.
\<close>

definition TypeError :: js_error where
  "TypeError = \<lparr>name = ''TypeError'', message = ''Cannot read properties of undefined''\<rparr>"

section \<open>fetchTikTokData\<close>

text \<open>
  \<open>images_nonempty\<close> is \<open>result.data.images && result.data.images.length > 0\<close>: an
  absent or null array is returned as it is, an array gives the comparison.
\<close>

fun images_nonempty :: "string list js \<Rightarrow> bool js" where
  "images_nonempty (Val xs) = Val (length xs > 0)"
| "images_nonempty Undefined = Undefined"
| "images_nonempty Null = Null"

text \<open>The object that a successful lookup returns (lines 170 to 180).\<close>

definition normalize :: "api_data \<Rightarrow> media_result" where
  "normalize d =
    (let photo = images_nonempty (images d) in
     \<lparr> media_result.title = or_else (title d) ''TikTok Content'',
       media_result.author =
         or_else (js_or (opt_get unique_id (author d)) (opt_get nickname (author d)))
           ''@tiktok'',
       thumbnail = js_or (cover d) (origin_cover d),
       videoUrl =
         (if truthy_bool photo then Null
          else js_or (js_or (hdplay d) (play d)) (wmplay d)),
       media_result.images = (if truthy_bool photo then images d else Null),
       isPhoto = photo,
       media_result.duration = duration d \<rparr>)"

text \<open>
  What the awaited \<open>fetch\<close> and \<open>response.json()\<close> can give: the fetch rejects (a
  network failure, or an abort of the signal), the response is not ok (its body is then
  never read), reading the body as JSON rejects, or the body parses to an object.
\<close>

datatype fetch_outcome =
    FetchRejected js_error
  | ResponseNotOk
  | JsonRejected js_error
  | JsonValue api_result

datatype console_entry = ConsoleError string js_error

text \<open>The \<open>try\<close> block of fetchTikTokData, from the point where the fetch settles.\<close>

fun fetchTikTokData_try :: "fetch_outcome \<Rightarrow> js_error + media_result" where
  "fetchTikTokData_try (FetchRejected e) = Inl e"
| "fetchTikTokData_try ResponseNotOk = Inl (Error ''Failed to fetch content data'')"
| "fetchTikTokData_try (JsonRejected e) = Inl e"
| "fetchTikTokData_try (JsonValue result) =
     (if code result \<noteq> Val 0
      then Inl (Error (or_else (msg result) ''Failed to fetch content''))
      else case data result of
             Val d \<Rightarrow> Inr (normalize d)
           | Undefined \<Rightarrow> Inl TypeError
           | Null \<Rightarrow> Inl TypeError)"

definition unable_to_fetch :: string where
  "unable_to_fetch = ''Unable to fetch content. Please check the URL and try again.''"

text \<open>
  The whole function: the \<open>catch\<close> clause receives every error of the \<open>try\<close> block,
  logs it and throws a new Error in its place.
\<close>

definition fetchTikTokData :: "fetch_outcome \<Rightarrow> console_entry list \<times> (js_error + media_result)" where
  "fetchTikTokData outcome =
    (case fetchTikTokData_try outcome of
       Inr r \<Rightarrow> ([], Inr r)
     | Inl error \<Rightarrow> ([ConsoleError ''API Error:'' error], Inl (Error unable_to_fetch)))"


section \<open>The page\<close>

text \<open>
  The module's variables and the parts of the document that the lookup writes. An
  AbortController is the number it was created under; \<open>aborted\<close> lists the controllers
  whose \<open>abort()\<close> has been called. The label of \<open>contentType\<close> is kept as a value
  (\<open>PHOTO n\<close> for the text of a gallery of \<open>n\<close> images). Timers are left out: the toast
  stays as it was last written.
\<close>

datatype content_label = NoLabel | VIDEO | PHOTO nat

record page =
  currentVideoData :: "media_result js"
  abortController :: "nat js"
  aborted :: "nat list"
  controllers :: nat
  videoUrl_error :: bool
  downloadBtn_loading :: bool
  result_active :: bool
  videoTitle :: string
  videoAuthor :: string
  contentType :: content_label
  downloadVideo_href :: string
  videoOptions_active :: bool
  photoGallery_active :: bool
  photoGrid :: "string list"
  toastMessage :: string
  toast_error :: bool
  toast_active :: bool
  console :: "console_entry list"

definition showToast :: "string \<Rightarrow> bool \<Rightarrow> page \<Rightarrow> page" where
  "showToast m isError p = p\<lparr>toastMessage := m, toast_error := isError, toast_active := True\<rparr>"

definition hideResult :: "page \<Rightarrow> page" where
  "hideResult p = p\<lparr>result_active := False\<rparr>"

definition showError :: "string \<Rightarrow> page \<Rightarrow> page" where
  "showError m p = showToast m True (p\<lparr>videoUrl_error := True\<rparr>)"

definition hideError :: "page \<Rightarrow> page" where
  "hideError p = p\<lparr>videoUrl_error := False\<rparr>"

definition setLoading :: "bool \<Rightarrow> page \<Rightarrow> page" where
  "setLoading isLoading p = p\<lparr>downloadBtn_loading := isLoading\<rparr>"

definition console_error :: "string \<Rightarrow> js_error \<Rightarrow> page \<Rightarrow> page" where
  "console_error label e p = p\<lparr>console := console p @ [ConsoleError label e]\<rparr>"

section \<open>displayResult\<close>

definition author_text :: "string \<Rightarrow> string" where
  "author_text a =
    (let author = (if a \<noteq> [] then a else ''tiktok'')
     in if take 1 author = ''@'' then author else ''@'' @ author)"

text \<open>
  The function writes the page as it goes and can throw where it reads
  \<open>data.images.length\<close>; what it wrote before stays written. Its argument
  \<open>data\<close> is \<open>r\<close> here.
\<close>

definition displayResult :: "media_result \<Rightarrow> page \<Rightarrow> page \<times> js_error option" where
  "displayResult r p =
    (let p1 = p\<lparr> currentVideoData := Val r,
                  videoTitle :=
                    (if media_result.title r \<noteq> [] then media_result.title r
                     else ''TikTok Content''),
                  videoAuthor := author_text (media_result.author r) \<rparr>
     in if truthy_bool (isPhoto r) then
          (case media_result.images r of
             Val imgs \<Rightarrow>
               (p1\<lparr> contentType := PHOTO (length imgs), videoOptions_active := False,
                    photoGallery_active := True, photoGrid := imgs,
                    result_active := True \<rparr>, None)
           | Undefined \<Rightarrow> (p1, Some TypeError)
           | Null \<Rightarrow> (p1, Some TypeError))
        else
          (let p2 = p1\<lparr>contentType := VIDEO, photoGallery_active := False\<rparr>;
               p3 = (case videoUrl r of
                       Val u \<Rightarrow>
                         (if u \<noteq> [] then p2\<lparr>downloadVideo_href := u, videoOptions_active := True\<rparr>
                          else p2\<lparr>videoOptions_active := False\<rparr>)
                     | Undefined \<Rightarrow> p2\<lparr>videoOptions_active := False\<rparr>
                     | Null \<Rightarrow> p2\<lparr>videoOptions_active := False\<rparr>)
           in (p3\<lparr>result_active := True\<rparr>, None)))"

section \<open>handleDownload\<close>

text \<open>
  \<open>trim\<close> removes white space and line terminators from both ends of the input.
\<close>

definition is_space :: "char \<Rightarrow> bool" where
  "is_space c = (c \<in> set [CHR 0x09, CHR 0x0A, CHR 0x0B, CHR 0x0C, CHR 0x0D, CHR 0x20, CHR 0xA0])"

definition trim :: "string \<Rightarrow> string" where
  "trim s = rev (dropWhile is_space (rev (dropWhile is_space s)))"

record request =
  req_url :: string
  req_signal :: nat

text \<open>
  The function runs in two parts. \<open>handleDownload_begin\<close> is everything up to the
  \<open>await\<close> of the fetch: it gives the page as written so far and, when the input is
  accepted, the request that is now in flight with the signal it was issued under.
  \<open>handleDownload_resume\<close> is the rest, run when that fetch has settled: the remainder of
  fetchTikTokData, then \<open>displayResult\<close> or the \<open>catch\<close> clause, then the \<open>finally\<close>
  clause.
\<close>

definition handleDownload_begin :: "string \<Rightarrow> page \<Rightarrow> page \<times> request option" where
  "handleDownload_begin input p =
    (let url = trim input in
     if url = [] then (showError ''Please enter a TikTok URL'' p, None)
     else if \<not> isValidTikTokUrl url then (showError ''Please enter a valid TikTok URL'' p, None)
     else
       (let p1 = (case abortController p of
                    Val c \<Rightarrow> p\<lparr>aborted := c # aborted p\<rparr>
                  | Undefined \<Rightarrow> p
                  | Null \<Rightarrow> p);
            c = controllers p1;
            p2 = p1\<lparr>abortController := Val c, controllers := c + 1\<rparr>;
            p3 = setLoading True (hideResult (hideError p2))
        in (p3, Some \<lparr>req_url = url, req_signal = c\<rparr>)))"

definition handleDownload_catch :: "js_error \<Rightarrow> page \<Rightarrow> page" where
  "handleDownload_catch error p =
    (if name error = ''AbortError'' then p
     else console_error ''Download error:'' error
            (showError (if message error \<noteq> [] then message error
                        else ''An error occurred. Please try again.'') p))"

definition handleDownload_finally :: "page \<Rightarrow> page" where
  "handleDownload_finally p = (setLoading False p)\<lparr>abortController := Null\<rparr>"

definition handleDownload_resume :: "fetch_outcome \<Rightarrow> page \<Rightarrow> page" where
  "handleDownload_resume outcome p =
    (case fetchTikTokData outcome of
       (logged, settled) \<Rightarrow>
         (let p1 = p\<lparr>console := console p @ logged\<rparr> in
          handleDownload_finally
            (case settled of
               Inr videoData \<Rightarrow>
                 (case displayResult videoData p1 of
                    (p2, None) \<Rightarrow> p2
                  | (p2, Some error) \<Rightarrow> handleDownload_catch error p2)
             | Inl error \<Rightarrow> handleDownload_catch error p1)))"

section \<open>downloadMedia\<close>









section \<open>The shapes a URL can have\<close>

text \<open>
  The strings that a sequence of atoms matches from its first to its last character,
  as a set; the matcher above is compared with it below.
\<close>

fun lang :: "atom list \<Rightarrow> string set" where
  "lang [] = {[]}"
| "lang (Lit l # r) = {l @ w | w. w \<in> lang r}"
| "lang (Plus k # r) = {u @ w | u w. u \<noteq> [] \<and> list_all (in_class k) u \<and> w \<in> lang r}"
| "lang (Star k # r) = {u @ w | u w. list_all (in_class k) u \<and> w \<in> lang r}"

text \<open>
  The URL forms of the platform, read off as shapes of a whole string: a video or photo
  path under a user name (\<open>tiktok.com/@user/video/123\<close>), a video or photo path under
  any run of characters of one line, and a short link, whose token is opaque and need
  not hold a digit.
\<close>

definition user_path :: "string \<Rightarrow> string \<Rightarrow> bool" where
  "user_path seg m \<longleftrightarrow>
     (\<exists>user ds. m = ''tiktok.com/@'' @ user @ seg @ ds \<and>
        user \<noteq> [] \<and> list_all (in_class WordDotDash) user \<and>
        ds \<noteq> [] \<and> list_all is_digit ds)"

definition any_path :: "string \<Rightarrow> string \<Rightarrow> bool" where
  "any_path seg m \<longleftrightarrow>
     (\<exists>mid ds. m = ''tiktok.com/'' @ mid @ seg @ ds \<and>
        list_all (\<lambda>c. \<not> is_line_terminator c) mid \<and>
        ds \<noteq> [] \<and> list_all is_digit ds)"

definition short_link :: "string \<Rightarrow> bool" where
  "short_link m \<longleftrightarrow>
     (\<exists>host token. m = host @ token \<and>
        host \<in> {''vm.tiktok.com/'', ''vt.tiktok.com/'', ''tiktok.com/t/''} \<and>
        token \<noteq> [] \<and> list_all (in_class WordDash) token)"

definition url_shape :: "string \<Rightarrow> bool" where
  "url_shape m \<longleftrightarrow>
     user_path ''/video/'' m \<or> any_path ''/video/'' m \<or>
     user_path ''/photo/'' m \<or> any_path ''/photo/'' m \<or> short_link m"

section \<open>Predicates on results and example responses\<close>

text \<open>An \<open>images\<close> field that is present and holds at least one image.\<close>

fun nonempty_images :: "string list js \<Rightarrow> bool" where
  "nonempty_images (Val xs) = (xs \<noteq> [])"
| "nonempty_images Undefined = False"
| "nonempty_images Null = False"

text \<open>A text that starts with one \<open>@\<close> and not with two.\<close>

definition one_leading_at :: "string \<Rightarrow> bool" where
  "one_leading_at s = (take 1 s = ''@'' \<and> take 1 (drop 1 s) \<noteq> ''@'')"

text \<open>
  Three responses of the lookup API: a gallery that also carries a video link, a video
  with two links, and a video whose author's name begins with two \<open>@\<close>.
\<close>

definition photo_response :: api_data where
  "photo_response =
    \<lparr> title = Val ''pics'', author = Undefined, cover = Undefined, origin_cover = Undefined,
      images = Val [''https://cdn.example/1.jpg'', ''https://cdn.example/2.jpg''],
      hdplay = Val ''https://cdn.example/hd.mp4'', play = Undefined, wmplay = Undefined,
      duration = Val 0 \<rparr>"

definition video_response :: api_data where
  "video_response =
    \<lparr> title = Val ''clip'', author = Val \<lparr>unique_id = Val ''foo'', nickname = Undefined\<rparr>,
      cover = Undefined, origin_cover = Undefined, images = Val [],
      hdplay = Val ''A'', play = Val ''B'', wmplay = Undefined, duration = Val 12 \<rparr>"

definition double_at_response :: api_data where
  "double_at_response =
    \<lparr> title = Val ''clip'', author = Val \<lparr>unique_id = Val ''@@foo'', nickname = Undefined\<rparr>,
      cover = Undefined, origin_cover = Undefined, images = Undefined,
      hdplay = Val ''https://cdn.example/hd.mp4'', play = Undefined, wmplay = Undefined,
      duration = Val 12 \<rparr>"



text \<open>The page as it is loaded, before any lookup.\<close>

definition page0 :: page where
  "page0 =
    \<lparr> currentVideoData = Null, abortController = Null, aborted = [], controllers = 0,
      videoUrl_error = False, downloadBtn_loading = False, result_active = False,
      videoTitle = [], videoAuthor = [], contentType = NoLabel, downloadVideo_href = [],
      videoOptions_active = False, photoGallery_active = False, photoGrid = [],
      toastMessage = [], toast_error = False, toast_active = False, console = [] \<rparr>"

section \<open>The matcher finds exactly the substrings of a pattern's language\<close>

lemma lang_star_skip: "w \<in> lang r \<Longrightarrow> w \<in> lang (Star k # r)"
proof -
  assume "w \<in> lang r"
  then have "w = [] @ w \<and> list_all (in_class k) [] \<and> w \<in> lang r" by simp
  then show ?thesis unfolding lang.simps by blast
qed

lemma match_here_sound: "match_here p s \<Longrightarrow> \<exists>m t. s = m @ t \<and> m \<in> lang p"
proof (induction p s rule: match_here.induct)
  case (1 s)
  then show ?case by simp
next
  case (2 l r s)
  then obtain m t where mt: "drop (length l) s = m @ t" "m \<in> lang r" by auto
  from 2 have "s = l @ drop (length l) s" by (metis append_take_drop_id match_here.simps(2))
  with mt have "s = (l @ m) @ t \<and> l @ m \<in> lang (Lit l # r)" by simp
  then show ?case by blast
next
  case (3 k r)
  then show ?case by simp
next
  case (4 k r c s)
  then have "in_class k c" "match_here (Star k # r) s" by simp_all
  with "4.IH" have "\<exists>m t. s = m @ t \<and> m \<in> lang (Star k # r)" by simp
  then obtain u w t where uw: "s = (u @ w) @ t" "list_all (in_class k) u" "w \<in> lang r"
    by auto
  from uw \<open>in_class k c\<close> have "c # u \<noteq> [] \<and> list_all (in_class k) (c # u) \<and> w \<in> lang r"
    by simp
  then have "(c # u) @ w \<in> lang (Plus k # r)" unfolding lang.simps by blast
  moreover from uw have "c # s = ((c # u) @ w) @ t" by simp
  ultimately show ?case by blast
next
  case (5 k r)
  then obtain m t where "[] = m @ t" "m \<in> lang r" by auto
  then have "[] = m @ t \<and> m \<in> lang (Star k # r)" using lang_star_skip by blast
  then show ?case by blast
next
  case (6 k r c s)
  show ?case
  proof (cases "in_class k c \<and> match_here (Star k # r) s")
    case True
    with "6.IH" have "\<exists>m t. s = m @ t \<and> m \<in> lang (Star k # r)" by simp
    then obtain u w t where uw: "s = (u @ w) @ t" "list_all (in_class k) u" "w \<in> lang r"
      by auto
    from uw True have "list_all (in_class k) (c # u) \<and> w \<in> lang r" by simp
    then have "(c # u) @ w \<in> lang (Star k # r)" unfolding lang.simps by blast
    moreover from uw have "c # s = ((c # u) @ w) @ t" by simp
    ultimately show ?thesis by blast
  next
    case False
    with 6 obtain m t where "c # s = m @ t" "m \<in> lang r" by auto
    then have "c # s = m @ t \<and> m \<in> lang (Star k # r)" using lang_star_skip by blast
    then show ?thesis by blast
  qed
qed

lemma match_here_star: "list_all (in_class k) u \<Longrightarrow> match_here (Star k # r) t \<Longrightarrow> match_here (Star k # r) (u @ t)"
  by (induction u) auto

lemma match_here_complete: "m \<in> lang p \<Longrightarrow> match_here p (m @ t)"
proof (induction p arbitrary: m)
  case Nil
  then show ?case by simp
next
  case (Cons a r)
  show ?case
  proof (cases a)
    case (Lit l)
    with Cons show ?thesis by auto
  next
    case (Plus k)
    with Cons.prems obtain u w where uw: "m = u @ w" "u \<noteq> []" "list_all (in_class k) u" "w \<in> lang r"
      by auto
    then obtain c u' where u: "u = c # u'" by (cases u) auto
    from uw Cons.IH have "match_here r (w @ t)" by simp
    then have "match_here (Star k # r) (w @ t)" by (cases "w @ t") auto
    with uw u have "match_here (Star k # r) (u' @ w @ t)" by (simp add: match_here_star)
    with uw u Plus show ?thesis by simp
  next
    case (Star k)
    with Cons.prems obtain u w where uw: "m = u @ w" "list_all (in_class k) u" "w \<in> lang r"
      by auto
    from uw Cons.IH have "match_here r (w @ t)" by simp
    then have "match_here (Star k # r) (w @ t)" by (cases "w @ t") auto
    with uw have "match_here (Star k # r) (u @ w @ t)" by (simp add: match_here_star)
    with uw Star show ?thesis by simp
  qed
qed

lemma match_here_iff: "match_here p s \<longleftrightarrow> (\<exists>m t. s = m @ t \<and> m \<in> lang p)"
  using match_here_sound match_here_complete by blast

lemma search_iff: "search p s \<longleftrightarrow> (\<exists>pre m post. s = pre @ m @ post \<and> m \<in> lang p)"
proof (induction s)
  case Nil
  then show ?case by (auto simp: match_here_iff)
next
  case (Cons c s)
  show ?case
  proof
    assume "search p (c # s)"
    then consider "match_here p (c # s)" | "search p s" by auto
    then show "\<exists>pre m post. c # s = pre @ m @ post \<and> m \<in> lang p"
    proof cases
      case 1
      then obtain m t where "c # s = [] @ m @ t \<and> m \<in> lang p" by (auto simp: match_here_iff)
      then show ?thesis by blast
    next
      case 2
      with Cons obtain pre m post where "s = pre @ m @ post" "m \<in> lang p" by auto
      then have "c # s = (c # pre) @ m @ post \<and> m \<in> lang p" by simp
      then show ?thesis by blast
    qed
  next
    assume "\<exists>pre m post. c # s = pre @ m @ post \<and> m \<in> lang p"
    then obtain pre m post where h: "c # s = pre @ m @ post" "m \<in> lang p" by blast
    show "search p (c # s)"
    proof (cases pre)
      case Nil
      with h have "match_here p (c # s)" using match_here_complete[of m p post] by simp
      then show ?thesis by simp
    next
      case (Cons c' pre')
      with h have "s = pre' @ m @ post" by simp
      with h Cons.IH have "search p s" by blast
      then show ?thesis by simp
    qed
  qed
qed


lemma in_lang_Nil: "m \<in> lang [] \<longleftrightarrow> m = []"
  by simp

lemma in_lang_Lit: "m \<in> lang (Lit l # r) \<longleftrightarrow> (\<exists>w. m = l @ w \<and> w \<in> lang r)"
  by simp

lemma in_lang_Plus:
  "m \<in> lang (Plus k # r) \<longleftrightarrow>
     (\<exists>u w. m = u @ w \<and> u \<noteq> [] \<and> list_all (in_class k) u \<and> w \<in> lang r)"
  by simp

lemma in_lang_Star:
  "m \<in> lang (Star k # r) \<longleftrightarrow> (\<exists>u w. m = u @ w \<and> list_all (in_class k) u \<and> w \<in> lang r)"
  by simp

lemmas in_lang = in_lang_Nil in_lang_Lit in_lang_Plus in_lang_Star

lemma in_class_Digit: "in_class Digit = is_digit"
  by (rule ext) simp

lemma in_class_Dot: "in_class Dot = (\<lambda>c. \<not> is_line_terminator c)"
  by (rule ext) simp

lemma lang_lit_plus_lit_plus:
  "m \<in> lang [Lit a, Plus k, Lit b, Plus k'] \<longleftrightarrow>
     (\<exists>u d. m = a @ u @ b @ d \<and> u \<noteq> [] \<and> list_all (in_class k) u \<and>
        d \<noteq> [] \<and> list_all (in_class k') d)"
  unfolding in_lang by (simp, blast)

lemma lang_lit_star_lit_plus:
  "m \<in> lang [Lit a, Star k, Lit b, Plus k'] \<longleftrightarrow>
     (\<exists>u d. m = a @ u @ b @ d \<and> list_all (in_class k) u \<and>
        d \<noteq> [] \<and> list_all (in_class k') d)"
  unfolding in_lang by (simp, blast)

lemma lang_lit_plus:
  "m \<in> lang [Lit a, Plus k] \<longleftrightarrow>
     (\<exists>u. m = a @ u \<and> u \<noteq> [] \<and> list_all (in_class k) u)"
  unfolding in_lang by simp

lemma lang_user_path:
  "m \<in> lang [Lit ''tiktok.com/@'', Plus WordDotDash, Lit seg, Plus Digit] \<longleftrightarrow> user_path seg m"
  unfolding user_path_def lang_lit_plus_lit_plus in_class_Digit ..

lemma lang_any_path:
  "m \<in> lang [Lit ''tiktok.com/'', Star Dot, Lit seg, Plus Digit] \<longleftrightarrow> any_path seg m"
  unfolding any_path_def lang_lit_star_lit_plus in_class_Digit in_class_Dot ..

lemma short_link_iff:
  "short_link m \<longleftrightarrow>
     m \<in> lang [Lit ''vm.tiktok.com/'', Plus WordDash] \<or>
     m \<in> lang [Lit ''vt.tiktok.com/'', Plus WordDash] \<or>
     m \<in> lang [Lit ''tiktok.com/t/'', Plus WordDash]"
  unfolding lang_lit_plus short_link_def by blast


lemma valid_unfold:
  "isValidTikTokUrl s \<longleftrightarrow>
     search [Lit ''tiktok.com/@'', Plus WordDotDash, Lit ''/video/'', Plus Digit] s \<or>
     search [Lit ''tiktok.com/'', Star Dot, Lit ''/video/'', Plus Digit] s \<or>
     search [Lit ''tiktok.com/@'', Plus WordDotDash, Lit ''/photo/'', Plus Digit] s \<or>
     search [Lit ''tiktok.com/'', Star Dot, Lit ''/photo/'', Plus Digit] s \<or>
     search [Lit ''vm.tiktok.com/'', Plus WordDash] s \<or>
     search [Lit ''vt.tiktok.com/'', Plus WordDash] s \<or>
     search [Lit ''tiktok.com/t/'', Plus WordDash] s"
  by (simp add: isValidTikTokUrl_def patterns_def regex_test_def)

lemma valid_iff_shape:
  "isValidTikTokUrl s \<longleftrightarrow> (\<exists>pre m post. s = pre @ m @ post \<and> url_shape m)"
  unfolding valid_unfold search_iff lang_user_path lang_any_path url_shape_def short_link_iff
    conj_disj_distribL ex_disj_distrib ..


text \<open>
  C4. The validator returns true exactly for the strings that contain one of the URL
  shapes: a video path, a photo path or a short link (whose token needs no digit), and
  so it returns false for every string without such a shape, among them
  \<open>not a url\<close> and \<open>https://youtube.com/watch?v=1\<close>.
\<close>

theorem validator_accepts_exactly_the_shapes:
  "(isValidTikTokUrl s \<longleftrightarrow> (\<exists>pre m post. s = pre @ m @ post \<and> url_shape m)) \<and>
   \<not> isValidTikTokUrl ''not a url'' \<and>
   \<not> isValidTikTokUrl ''https://youtube.com/watch?v=1''"
proof -
  have "\<not> isValidTikTokUrl ''not a url''" by code_simp
  moreover have "\<not> isValidTikTokUrl ''https://youtube.com/watch?v=1''" by code_simp
  ultimately show ?thesis using valid_iff_shape by blast
qed

theorem validator_accepts_exactly_the_shapes_witness:
  "isValidTikTokUrl ''https://vm.tiktok.com/ZMabcXYZ/'' \<and>
   (\<exists>pre m post. ''https://vm.tiktok.com/ZMabcXYZ/'' = pre @ m @ post \<and> url_shape m)"
proof -
  have v: "isValidTikTokUrl ''https://vm.tiktok.com/ZMabcXYZ/''" by code_simp
  from validator_accepts_exactly_the_shapes [of "''https://vm.tiktok.com/ZMabcXYZ/''"] v
  show ?thesis by blast
qed

text \<open>
  C9. The patterns are unanchored: a string that holds one of the shapes between any
  prefix and any suffix is accepted, so an accepted string stays accepted whatever is
  put before and after it. \<open>https://evil.example/?q=vm.tiktok.com/abc\<close> and
  \<open>xtiktok.com/@a/video/1\<close> are accepted, though neither is a URL on the platform's
  host.
\<close>

theorem validator_is_unanchored:
  "(url_shape m \<longrightarrow> isValidTikTokUrl (pre @ m @ post)) \<and>
   (isValidTikTokUrl s \<longrightarrow> isValidTikTokUrl (pre @ s @ post)) \<and>
   isValidTikTokUrl ''https://evil.example/?q=vm.tiktok.com/abc'' \<and>
   isValidTikTokUrl ''xtiktok.com/@a/video/1''"
proof -
  have a: "url_shape m \<longrightarrow> isValidTikTokUrl (pre @ m @ post)"
    unfolding valid_iff_shape by blast
  have b: "isValidTikTokUrl s \<longrightarrow> isValidTikTokUrl (pre @ s @ post)"
  proof
    assume "isValidTikTokUrl s"
    then obtain u m v where "s = u @ m @ v" "url_shape m"
      unfolding valid_iff_shape by blast
    then have "pre @ s @ post = (pre @ u) @ m @ (v @ post) \<and> url_shape m" by simp
    then show "isValidTikTokUrl (pre @ s @ post)"
      unfolding valid_iff_shape by blast
  qed
  have c: "isValidTikTokUrl ''https://evil.example/?q=vm.tiktok.com/abc''" by code_simp
  have d: "isValidTikTokUrl ''xtiktok.com/@a/video/1''" by code_simp
  from a b c d show ?thesis by blast
qed

theorem validator_is_unanchored_witness:
  "url_shape ''vm.tiktok.com/abc'' \<and>
   isValidTikTokUrl (''https://evil.example/?q='' @ ''vm.tiktok.com/abc'' @ ''&x=1'') \<and>
   isValidTikTokUrl ''tiktok.com/@a/video/1'' \<and>
   isValidTikTokUrl (''x'' @ ''tiktok.com/@a/video/1'' @ ''?lang=en'')"
proof -
  have "''vm.tiktok.com/abc'' = ''vm.tiktok.com/'' @ ''abc'' \<and>
        ''vm.tiktok.com/'' \<in> {''vm.tiktok.com/'', ''vt.tiktok.com/'', ''tiktok.com/t/''} \<and>
        ''abc'' \<noteq> [] \<and> list_all (in_class WordDash) ''abc''"
    by (simp add: is_word_def)
  then have "short_link ''vm.tiktok.com/abc''" unfolding short_link_def by blast
  then have sh: "url_shape ''vm.tiktok.com/abc''" unfolding url_shape_def by blast
  have v: "isValidTikTokUrl ''tiktok.com/@a/video/1''" by code_simp
  from sh v
    validator_is_unanchored [of "''vm.tiktok.com/abc''" "''https://evil.example/?q=''" "''&x=1''"
      "''tiktok.com/@a/video/1''"]
    validator_is_unanchored [of "''vm.tiktok.com/abc''" "''x''" "''?lang=en''"
      "''tiktok.com/@a/video/1''"]
  show ?thesis by blast
qed

section \<open>The normalized result\<close>

lemma truthy_images_nonempty: "truthy_bool (images_nonempty v) = nonempty_images v"
  by (cases v) auto

lemma successful_lookup:
  "fetchTikTokData (JsonValue \<lparr>code = Val 0, msg = m, data = Val d\<rparr>) = ([], Inr (normalize d))"
  by (simp add: fetchTikTokData_def)

lemma or_else_js_or: "or_else (js_or u v) x = or_else u (or_else v x)"
  by (cases u; cases v) (auto simp: js_or_def)

lemma js_or_empty: "js_or (Val []) v = js_or Undefined v"
  by (simp add: js_or_def)

lemma normalize_author:
  "media_result.author (normalize d) =
     or_else (opt_get unique_id (author d)) (or_else (opt_get nickname (author d)) ''@tiktok'')"
  by (simp add: normalize_def Let_def or_else_js_or)

lemma normalize_title:
  "media_result.title (normalize d) = or_else (title d) ''TikTok Content''"
  by (simp add: normalize_def Let_def)

lemma normalize_author_nonempty: "media_result.author (normalize d) \<noteq> []"
proof -
  have "or_else v ''@tiktok'' \<noteq> []" for v
    by (cases v) auto
  then show ?thesis by (simp add: normalize_def Let_def)
qed

lemma normalize_title_nonempty: "media_result.title (normalize d) \<noteq> []"
proof -
  have "or_else v ''TikTok Content'' \<noteq> []" for v
    by (cases v) auto
  then show ?thesis by (simp add: normalize_def Let_def)
qed

text \<open>
  C5. A successful lookup (code 0, data present) returns the normalized result. When
  the response's \<open>images\<close> array is present and non-empty, the result has
  \<open>isPhoto = true\<close>, carries those images and has no \<open>videoUrl\<close>, whatever the other
  fields hold. Every such result has exactly one of a present \<open>videoUrl\<close> and non-empty
  images, or else is the degraded video result: no \<open>videoUrl\<close> and a falsy \<open>isPhoto\<close>
  (\<open>false\<close> for an empty array, \<open>undefined\<close> or \<open>null\<close> for a missing one).
\<close>

theorem photo_result_and_media_invariant:
  "fetchTikTokData (JsonValue \<lparr>code = Val 0, msg = m, data = Val d\<rparr>) = ([], Inr (normalize d)) \<and>
   (nonempty_images (images d) \<longrightarrow>
      isPhoto (normalize d) = Val True \<and>
      media_result.images (normalize d) = images d \<and>
      videoUrl (normalize d) = Null) \<and>
   (truthy_str (videoUrl (normalize d)) \<noteq> nonempty_images (media_result.images (normalize d)) \<or>
    (\<not> truthy_str (videoUrl (normalize d)) \<and> \<not> truthy_bool (isPhoto (normalize d))))"
proof -
  have a: "nonempty_images (images d) \<longrightarrow>
      isPhoto (normalize d) = Val True \<and>
      media_result.images (normalize d) = images d \<and>
      videoUrl (normalize d) = Null"
    by (cases "images d") (simp_all add: normalize_def)
  have b: "truthy_str (videoUrl (normalize d)) \<noteq> nonempty_images (media_result.images (normalize d)) \<or>
    (\<not> truthy_str (videoUrl (normalize d)) \<and> \<not> truthy_bool (isPhoto (normalize d)))"
    by (cases "nonempty_images (images d)") (simp_all add: normalize_def Let_def truthy_images_nonempty)
  from a b successful_lookup show ?thesis by blast
qed

theorem photo_result_and_media_invariant_witness:
  "nonempty_images (images photo_response) \<and>
   isPhoto (normalize photo_response) = Val True \<and>
   media_result.images (normalize photo_response) =
     Val [''https://cdn.example/1.jpg'', ''https://cdn.example/2.jpg''] \<and>
   videoUrl (normalize photo_response) = Null \<and>
   truthy_str (hdplay photo_response)"
  using photo_result_and_media_invariant [of Undefined photo_response]
  by (simp add: photo_response_def)

text \<open>
  C6. For a successful response whose \<open>images\<close> are empty or absent, \<open>videoUrl\<close> is the
  first non-empty field among \<open>hdplay\<close>, \<open>play\<close> and \<open>wmplay\<close>, in that order; with
  \<open>hdplay = "A"\<close> and \<open>play = "B"\<close> it is \<open>"A"\<close>.
\<close>

theorem video_url_priority:
  "fetchTikTokData (JsonValue \<lparr>code = Val 0, msg = m, data = Val d\<rparr>) = ([], Inr (normalize d)) \<and>
   (\<not> nonempty_images (images d) \<longrightarrow>
      videoUrl (normalize d) =
        (if truthy_str (hdplay d) then hdplay d
         else if truthy_str (play d) then play d else wmplay d)) \<and>
   (\<not> nonempty_images (images d) \<longrightarrow>
      videoUrl (normalize (d\<lparr>hdplay := Val ''A'', play := Val ''B''\<rparr>)) = Val ''A'')"
  by (simp add: successful_lookup normalize_def Let_def truthy_images_nonempty js_or_def)

theorem video_url_priority_witness:
  "\<not> nonempty_images (images video_response) \<and>
   hdplay video_response = Val ''A'' \<and> play video_response = Val ''B'' \<and>
   videoUrl (normalize video_response) = Val ''A''"
  using video_url_priority [of Undefined video_response]
  by (simp add: video_response_def)

section \<open>What displayResult shows\<close>

lemma author_text_at: "take 1 (author_text a) = ''@''"
  by (simp add: author_text_def Let_def)

lemma displayResult_videoAuthor:
  "videoAuthor (fst (displayResult r p)) = author_text (media_result.author r)"
  by (simp add: displayResult_def Let_def split: js.splits)

lemma displayResult_videoTitle:
  "videoTitle (fst (displayResult r p)) =
     (if media_result.title r \<noteq> [] then media_result.title r else ''TikTok Content'')"
  by (simp add: displayResult_def Let_def split: js.splits)

text \<open>
  C7, as amended. The title is the response's title, or \<open>TikTok Content\<close> when that is
  absent or empty; the author is \<open>author.unique_id\<close>, else \<open>author.nickname\<close>, else
  \<open>@tiktok\<close>. The displayed author always starts with \<open>@\<close>: it is the author as it
  is when that starts with \<open>@\<close>, and the author behind one added \<open>@\<close> otherwise, so
  \<open>foo\<close> shows as \<open>@foo\<close> and \<open>@foo\<close> stays \<open>@foo\<close>. It starts with exactly one
  \<open>@\<close> whenever the author does not itself begin with two.
\<close>

theorem title_author_fallback_and_at_prefix:
  "media_result.title (normalize d) = or_else (title d) ''TikTok Content'' \<and>
   videoTitle (fst (displayResult (normalize d) p)) = or_else (title d) ''TikTok Content'' \<and>
   media_result.author (normalize d) =
     or_else (opt_get unique_id (author d)) (or_else (opt_get nickname (author d)) ''@tiktok'') \<and>
   videoAuthor (fst (displayResult (normalize d) p)) =
     (if take 1 (media_result.author (normalize d)) = ''@''
      then media_result.author (normalize d)
      else ''@'' @ media_result.author (normalize d)) \<and>
   take 1 (videoAuthor (fst (displayResult (normalize d) p))) = ''@'' \<and>
   (take 2 (media_result.author (normalize d)) \<noteq> ''@@'' \<longrightarrow>
      one_leading_at (videoAuthor (fst (displayResult (normalize d) p)))) \<and>
   videoAuthor (fst (displayResult
      (normalize (d\<lparr>author := Val \<lparr>unique_id = Val ''foo'', nickname = n\<rparr>\<rparr>)) p)) = ''@foo'' \<and>
   videoAuthor (fst (displayResult
      (normalize (d\<lparr>author := Val \<lparr>unique_id = Val ''@foo'', nickname = n\<rparr>\<rparr>)) p)) = ''@foo''"
proof -
  have t: "media_result.title (normalize d) = or_else (title d) ''TikTok Content''"
    by (rule normalize_title)
  have vt: "videoTitle (fst (displayResult (normalize d) p)) = or_else (title d) ''TikTok Content''"
    using normalize_title_nonempty [of d] by (simp add: displayResult_videoTitle t)
  have a: "media_result.author (normalize d) =
     or_else (opt_get unique_id (author d)) (or_else (opt_get nickname (author d)) ''@tiktok'')"
    by (rule normalize_author)
  have va: "videoAuthor (fst (displayResult (normalize d) p)) =
     (if take 1 (media_result.author (normalize d)) = ''@''
      then media_result.author (normalize d)
      else ''@'' @ media_result.author (normalize d))"
    using normalize_author_nonempty [of d]
    by (simp add: displayResult_videoAuthor author_text_def Let_def)
  have h: "take 1 (videoAuthor (fst (displayResult (normalize d) p))) = ''@''"
    unfolding displayResult_videoAuthor by (rule author_text_at)
  have o: "take 2 (media_result.author (normalize d)) \<noteq> ''@@'' \<longrightarrow>
      one_leading_at (videoAuthor (fst (displayResult (normalize d) p)))"
  proof
    assume n2: "take 2 (media_result.author (normalize d)) \<noteq> ''@@''"
    obtain c cs where ccs: "media_result.author (normalize d) = c # cs"
      using normalize_author_nonempty [of d] by (cases "media_result.author (normalize d)") auto
    show "one_leading_at (videoAuthor (fst (displayResult (normalize d) p)))"
    proof (cases cs)
      case Nil
      with ccs show ?thesis unfolding va one_leading_at_def by simp
    next
      case (Cons c' cs')
      with ccs n2 show ?thesis unfolding va one_leading_at_def by (auto simp: numeral_2_eq_2)
    qed
  qed
  have e1: "videoAuthor (fst (displayResult
      (normalize (d\<lparr>author := Val \<lparr>unique_id = Val ''foo'', nickname = n\<rparr>\<rparr>)) p)) = ''@foo''"
    by (simp add: displayResult_videoAuthor normalize_author author_text_def)
  have e2: "videoAuthor (fst (displayResult
      (normalize (d\<lparr>author := Val \<lparr>unique_id = Val ''@foo'', nickname = n\<rparr>\<rparr>)) p)) = ''@foo''"
    by (simp add: displayResult_videoAuthor normalize_author author_text_def)
  from t vt a va h o e1 e2 show ?thesis by blast
qed

theorem title_author_fallback_and_at_prefix_witness:
  "media_result.author (normalize video_response) = ''foo'' \<and>
   take 2 (media_result.author (normalize video_response)) \<noteq> ''@@'' \<and>
   one_leading_at (videoAuthor (fst (displayResult (normalize video_response) page0)))"
proof -
  have a: "media_result.author (normalize video_response) = ''foo''"
    by (simp add: normalize_author video_response_def)
  then have n: "take 2 (media_result.author (normalize video_response)) \<noteq> ''@@''"
    by simp
  from a n title_author_fallback_and_at_prefix [of video_response page0 Undefined]
  show ?thesis by blast
qed

text \<open>
  An author that itself begins with two \<open>@\<close> is shown unchanged, with both of them:
  the displayed author does not always carry exactly one leading \<open>@\<close>.
\<close>

theorem author_display_double_at_counterexample:
  "videoAuthor (fst (displayResult (normalize double_at_response) page0)) = ''@@foo'' \<and>
   \<not> one_leading_at (videoAuthor (fst (displayResult (normalize double_at_response) page0)))"
  by (simp add: displayResult_videoAuthor normalize_author author_text_def one_leading_at_def
      double_at_response_def)

text \<open>
  C10. In normalization an empty string counts as an absent field at every fallback
  step: an empty \<open>title\<close> gives \<open>TikTok Content\<close>, an empty \<open>author.unique_id\<close> falls
  through to \<open>nickname\<close> and then to \<open>@tiktok\<close>, an empty \<open>hdplay\<close> falls through to
  \<open>play\<close> and then to \<open>wmplay\<close>; the result is the one of the response without the
  field. Spelled out: with an empty \<open>unique_id\<close> a non-empty \<open>nickname\<close> is the author
  and a missing or empty one gives \<open>@tiktok\<close>; with an empty \<open>hdplay\<close> and no images a
  non-empty \<open>play\<close> is the \<open>videoUrl\<close> and a missing or empty one gives \<open>wmplay\<close>; a
  non-empty \<open>title\<close>, \<open>unique_id\<close> or \<open>hdplay\<close> is taken as it is.
\<close>

theorem empty_string_is_absent:
  "normalize (d\<lparr>title := Val ''''\<rparr>) = normalize (d\<lparr>title := Undefined\<rparr>) \<and>
   media_result.title (normalize (d\<lparr>title := Val ''''\<rparr>)) = ''TikTok Content'' \<and>
   normalize (d\<lparr>author := Val (a\<lparr>unique_id := Val ''''\<rparr>)\<rparr>) =
     normalize (d\<lparr>author := Val (a\<lparr>unique_id := Undefined\<rparr>)\<rparr>) \<and>
   normalize (d\<lparr>author := Val (a\<lparr>nickname := Val ''''\<rparr>)\<rparr>) =
     normalize (d\<lparr>author := Val (a\<lparr>nickname := Undefined\<rparr>)\<rparr>) \<and>
   media_result.author (normalize (d\<lparr>author := Val \<lparr>unique_id = Val '''', nickname = n\<rparr>\<rparr>)) =
     or_else n ''@tiktok'' \<and>
   media_result.author
     (normalize (d\<lparr>author := Val \<lparr>unique_id = Val '''', nickname = Val ''''\<rparr>\<rparr>)) = ''@tiktok'' \<and>
   normalize (d\<lparr>hdplay := Val ''''\<rparr>) = normalize (d\<lparr>hdplay := Undefined\<rparr>) \<and>
   normalize (d\<lparr>play := Val ''''\<rparr>) = normalize (d\<lparr>play := Undefined\<rparr>) \<and>
   normalize (d\<lparr>cover := Val ''''\<rparr>) = normalize (d\<lparr>cover := Undefined\<rparr>) \<and>
   videoUrl (normalize (d\<lparr>hdplay := Val ''''\<rparr>)) =
     (if nonempty_images (images d) then Null else js_or (play d) (wmplay d)) \<and>
   videoUrl (normalize (d\<lparr>hdplay := Val '''', play := Val ''''\<rparr>)) =
     (if nonempty_images (images d) then Null else wmplay d) \<and>
   (s \<noteq> [] \<longrightarrow>
      media_result.author
        (normalize (d\<lparr>author := Val \<lparr>unique_id = Val '''', nickname = Val s\<rparr>\<rparr>)) = s) \<and>
   media_result.author
     (normalize (d\<lparr>author := Val \<lparr>unique_id = Val '''', nickname = Undefined\<rparr>\<rparr>)) = ''@tiktok'' \<and>
   media_result.author
     (normalize (d\<lparr>author := Val \<lparr>unique_id = Val '''', nickname = Null\<rparr>\<rparr>)) = ''@tiktok'' \<and>
   (u \<noteq> [] \<longrightarrow>
      media_result.author
        (normalize (d\<lparr>author := Val \<lparr>unique_id = Val u, nickname = n\<rparr>\<rparr>)) = u) \<and>
   (s \<noteq> [] \<longrightarrow> media_result.title (normalize (d\<lparr>title := Val s\<rparr>)) = s) \<and>
   (\<not> nonempty_images (images d) \<and> s \<noteq> [] \<longrightarrow>
      videoUrl (normalize (d\<lparr>hdplay := Val '''', play := Val s\<rparr>)) = Val s) \<and>
   (\<not> nonempty_images (images d) \<longrightarrow>
      videoUrl (normalize (d\<lparr>hdplay := Val '''', play := Val '''', wmplay := w\<rparr>)) = w \<and>
      videoUrl (normalize (d\<lparr>hdplay := Val '''', play := Undefined, wmplay := w\<rparr>)) = w \<and>
      videoUrl (normalize (d\<lparr>hdplay := Val '''', play := Null, wmplay := w\<rparr>)) = w) \<and>
   (\<not> nonempty_images (images d) \<and> u \<noteq> [] \<longrightarrow>
      videoUrl (normalize (d\<lparr>hdplay := Val u\<rparr>)) = Val u)"
proof -
  have 1: "normalize (d\<lparr>title := Val ''''\<rparr>) = normalize (d\<lparr>title := Undefined\<rparr>)"
    by (simp add: normalize_def Let_def)
  have 2: "media_result.title (normalize (d\<lparr>title := Val ''''\<rparr>)) = ''TikTok Content''"
    by (simp add: normalize_title)
  have 3: "normalize (d\<lparr>author := Val (a\<lparr>unique_id := Val ''''\<rparr>)\<rparr>) =
     normalize (d\<lparr>author := Val (a\<lparr>unique_id := Undefined\<rparr>)\<rparr>)"
    by (simp add: normalize_def Let_def js_or_empty)
  have 4: "normalize (d\<lparr>author := Val (a\<lparr>nickname := Val ''''\<rparr>)\<rparr>) =
     normalize (d\<lparr>author := Val (a\<lparr>nickname := Undefined\<rparr>)\<rparr>)"
    by (simp add: normalize_def Let_def or_else_js_or)
  have 5: "media_result.author (normalize (d\<lparr>author := Val \<lparr>unique_id = Val '''', nickname = n\<rparr>\<rparr>)) =
     or_else n ''@tiktok''"
    by (simp add: normalize_author)
  have 6: "media_result.author
     (normalize (d\<lparr>author := Val \<lparr>unique_id = Val '''', nickname = Val ''''\<rparr>\<rparr>)) = ''@tiktok''"
    by (simp add: normalize_author)
  have 7: "normalize (d\<lparr>hdplay := Val ''''\<rparr>) = normalize (d\<lparr>hdplay := Undefined\<rparr>)"
    by (simp add: normalize_def Let_def js_or_empty)
  have 8: "normalize (d\<lparr>play := Val ''''\<rparr>) = normalize (d\<lparr>play := Undefined\<rparr>)"
    by (simp add: normalize_def Let_def js_or_def)
  have 9: "normalize (d\<lparr>cover := Val ''''\<rparr>) = normalize (d\<lparr>cover := Undefined\<rparr>)"
    by (simp add: normalize_def Let_def js_or_empty)
  have 10: "videoUrl (normalize (d\<lparr>hdplay := Val ''''\<rparr>)) =
     (if nonempty_images (images d) then Null else js_or (play d) (wmplay d))"
    by (simp add: normalize_def Let_def truthy_images_nonempty js_or_def)
  have 11: "videoUrl (normalize (d\<lparr>hdplay := Val '''', play := Val ''''\<rparr>)) =
     (if nonempty_images (images d) then Null else wmplay d)"
    by (simp add: normalize_def Let_def truthy_images_nonempty js_or_def)
  have 12: "s \<noteq> [] \<longrightarrow>
      media_result.author
        (normalize (d\<lparr>author := Val \<lparr>unique_id = Val '''', nickname = Val s\<rparr>\<rparr>)) = s"
    by (simp add: normalize_author)
  have 13: "media_result.author
     (normalize (d\<lparr>author := Val \<lparr>unique_id = Val '''', nickname = Undefined\<rparr>\<rparr>)) = ''@tiktok''"
    by (simp add: normalize_author)
  have 14: "media_result.author
     (normalize (d\<lparr>author := Val \<lparr>unique_id = Val '''', nickname = Null\<rparr>\<rparr>)) = ''@tiktok''"
    by (simp add: normalize_author)
  have 15: "u \<noteq> [] \<longrightarrow>
      media_result.author
        (normalize (d\<lparr>author := Val \<lparr>unique_id = Val u, nickname = n\<rparr>\<rparr>)) = u"
    by (simp add: normalize_author)
  have 16: "s \<noteq> [] \<longrightarrow> media_result.title (normalize (d\<lparr>title := Val s\<rparr>)) = s"
    by (simp add: normalize_title)
  have 17: "\<not> nonempty_images (images d) \<and> s \<noteq> [] \<longrightarrow>
      videoUrl (normalize (d\<lparr>hdplay := Val '''', play := Val s\<rparr>)) = Val s"
    by (simp add: normalize_def Let_def truthy_images_nonempty js_or_def)
  have 18: "\<not> nonempty_images (images d) \<longrightarrow>
      videoUrl (normalize (d\<lparr>hdplay := Val '''', play := Val '''', wmplay := w\<rparr>)) = w \<and>
      videoUrl (normalize (d\<lparr>hdplay := Val '''', play := Undefined, wmplay := w\<rparr>)) = w \<and>
      videoUrl (normalize (d\<lparr>hdplay := Val '''', play := Null, wmplay := w\<rparr>)) = w"
    by (simp add: normalize_def Let_def truthy_images_nonempty js_or_def)
  have 19: "\<not> nonempty_images (images d) \<and> u \<noteq> [] \<longrightarrow>
      videoUrl (normalize (d\<lparr>hdplay := Val u\<rparr>)) = Val u"
    by (simp add: normalize_def Let_def truthy_images_nonempty js_or_def)
  from 1 2 3 4 5 6 7 8 9 10 11 12 13 14 15 16 17 18 19 show ?thesis by blast
qed

theorem empty_string_is_absent_witness:
  "\<not> nonempty_images (images video_response) \<and>
   media_result.author
     (normalize (video_response\<lparr>author := Val \<lparr>unique_id = Val '''', nickname = Val ''nick''\<rparr>\<rparr>)) =
     ''nick'' \<and>
   videoUrl (normalize (video_response\<lparr>hdplay := Val '''', play := Val ''B''\<rparr>)) = Val ''B'' \<and>
   videoUrl (normalize (video_response\<lparr>hdplay := Val '''', play := Val '''', wmplay := Val ''W''\<rparr>)) =
     Val ''W'' \<and>
   videoUrl (normalize (video_response\<lparr>hdplay := Val ''A''\<rparr>)) = Val ''A''"
proof -
  have i: "\<not> nonempty_images (images video_response)"
    by (simp add: video_response_def)
  note nick = empty_string_is_absent
      [where d = video_response and s = "''nick''" and u = "''A''" and w = "Val ''W''"]
  note play = empty_string_is_absent
      [where d = video_response and s = "''B''" and u = "''A''" and w = "Val ''W''"]
  have a: "media_result.author
     (normalize (video_response\<lparr>author := Val \<lparr>unique_id = Val '''', nickname = Val ''nick''\<rparr>\<rparr>)) =
     ''nick''"
    using nick by simp
  have b: "videoUrl (normalize (video_response\<lparr>hdplay := Val '''', play := Val ''B''\<rparr>)) = Val ''B''"
    using play i by simp
  have c: "videoUrl (normalize (video_response\<lparr>hdplay := Val '''', play := Val '''', wmplay := Val ''W''\<rparr>)) =
     Val ''W''"
    using play i by blast
  have d: "videoUrl (normalize (video_response\<lparr>hdplay := Val ''A''\<rparr>)) = Val ''A''"
    using play i by simp
  from i a b c d show ?thesis by blast
qed

section \<open>Failed lookups\<close>

lemma Error_name: "name (Error m) = ''Error''"
  by (simp add: Error_def)

lemma Error_message: "message (Error m) = m"
  by (simp add: Error_def)

lemma resume_failed:
  "fetchTikTokData_try outcome = Inl e \<Longrightarrow>
   handleDownload_resume outcome p =
     handleDownload_finally
       (console_error ''Download error:'' (Error unable_to_fetch)
         (showError unable_to_fetch (p\<lparr>console := console p @ [ConsoleError ''API Error:'' e]\<rparr>)))"
  by (simp add: handleDownload_resume_def fetchTikTokData_def handleDownload_catch_def
      Error_name Error_message unable_to_fetch_def)

lemma failed_page:
  "q = handleDownload_finally
       (console_error ''Download error:'' (Error unable_to_fetch)
         (showError unable_to_fetch (p\<lparr>console := console p @ [ConsoleError ''API Error:'' e]\<rparr>))) \<Longrightarrow>
   toastMessage q = unable_to_fetch \<and> toast_error q \<and> toast_active q \<and> videoUrl_error q \<and>
   \<not> downloadBtn_loading q \<and> abortController q = Null \<and>
   console q = console p @ [ConsoleError ''API Error:'' e,
                            ConsoleError ''Download error:'' (Error unable_to_fetch)]"
  by (simp add: handleDownload_finally_def console_error_def showError_def showToast_def
      setLoading_def)

text \<open>
  C8. When the fetch rejects (a network error) or the body does not parse as JSON, the
  lookup fails with the fixed message
  \<open>Unable to fetch content. Please check the URL and try again.\<close>: that text, which
  holds nothing of the error, is what the toast shows, and the error itself is written
  to the console.
\<close>

theorem network_and_parse_failures_are_generic:
  "fetchTikTokData (FetchRejected e) =
     ([ConsoleError ''API Error:'' e], Inl (Error unable_to_fetch)) \<and>
   fetchTikTokData (JsonRejected e) =
     ([ConsoleError ''API Error:'' e], Inl (Error unable_to_fetch)) \<and>
   toastMessage (handleDownload_resume (FetchRejected e) p) = unable_to_fetch \<and>
   toastMessage (handleDownload_resume (JsonRejected e) p) = unable_to_fetch \<and>
   toast_error (handleDownload_resume (FetchRejected e) p) \<and>
   toast_error (handleDownload_resume (JsonRejected e) p) \<and>
   console (handleDownload_resume (FetchRejected e) p) =
     console p @ [ConsoleError ''API Error:'' e,
                  ConsoleError ''Download error:'' (Error unable_to_fetch)] \<and>
   console (handleDownload_resume (JsonRejected e) p) =
     console p @ [ConsoleError ''API Error:'' e,
                  ConsoleError ''Download error:'' (Error unable_to_fetch)] \<and>
   unable_to_fetch = ''Unable to fetch content. Please check the URL and try again.''"
proof -
  have f: "fetchTikTokData (FetchRejected e) =
     ([ConsoleError ''API Error:'' e], Inl (Error unable_to_fetch))"
    by (simp add: fetchTikTokData_def)
  have j: "fetchTikTokData (JsonRejected e) =
     ([ConsoleError ''API Error:'' e], Inl (Error unable_to_fetch))"
    by (simp add: fetchTikTokData_def)
  have "fetchTikTokData_try (FetchRejected e) = Inl e" by simp
  from failed_page [OF resume_failed [OF this]]
  have pf: "toastMessage (handleDownload_resume (FetchRejected e) p) = unable_to_fetch"
    "toast_error (handleDownload_resume (FetchRejected e) p)"
    "console (handleDownload_resume (FetchRejected e) p) =
     console p @ [ConsoleError ''API Error:'' e,
                  ConsoleError ''Download error:'' (Error unable_to_fetch)]"
    by blast+
  have "fetchTikTokData_try (JsonRejected e) = Inl e" by simp
  from failed_page [OF resume_failed [OF this]]
  have pj: "toastMessage (handleDownload_resume (JsonRejected e) p) = unable_to_fetch"
    "toast_error (handleDownload_resume (JsonRejected e) p)"
    "console (handleDownload_resume (JsonRejected e) p) =
     console p @ [ConsoleError ''API Error:'' e,
                  ConsoleError ''Download error:'' (Error unable_to_fetch)]"
    by blast+
  from f j pf pj show ?thesis by (simp add: unable_to_fetch_def)
qed


section \<open>A lookup started while another is in flight\<close>

lemma begin_accepted:
  "trim input \<noteq> [] \<Longrightarrow> isValidTikTokUrl (trim input) \<Longrightarrow>
   handleDownload_begin input p =
     ((case abortController p of Val c \<Rightarrow> p\<lparr>aborted := c # aborted p\<rparr> | Undefined \<Rightarrow> p | Null \<Rightarrow> p)
        \<lparr> abortController := Val (controllers p), controllers := controllers p + 1,
          videoUrl_error := False, result_active := False, downloadBtn_loading := True \<rparr>,
      Some \<lparr>req_url = trim input, req_signal = controllers p\<rparr>)"
  by (simp add: handleDownload_begin_def Let_def setLoading_def hideResult_def hideError_def
      split: js.splits)

lemma trim_video_url: "trim ''https://www.tiktok.com/@a/video/1'' = ''https://www.tiktok.com/@a/video/1''"
  by code_simp

lemma valid_video_url: "isValidTikTokUrl ''https://www.tiktok.com/@a/video/1''"
  by code_simp

lemma trim_short_url: "trim ''https://vm.tiktok.com/abc'' = ''https://vm.tiktok.com/abc''"
  by code_simp

lemma valid_short_url: "isValidTikTokUrl ''https://vm.tiktok.com/abc''"
  by code_simp

lemma begin_video_url:
  "handleDownload_begin ''https://www.tiktok.com/@a/video/1'' p =
     ((case abortController p of Val c \<Rightarrow> p\<lparr>aborted := c # aborted p\<rparr> | Undefined \<Rightarrow> p | Null \<Rightarrow> p)
        \<lparr> abortController := Val (controllers p), controllers := controllers p + 1,
          videoUrl_error := False, result_active := False, downloadBtn_loading := True \<rparr>,
      Some \<lparr>req_url = ''https://www.tiktok.com/@a/video/1'', req_signal = controllers p\<rparr>)"
  using begin_accepted [of "''https://www.tiktok.com/@a/video/1''" p] valid_video_url
  unfolding trim_video_url by simp

lemma begin_short_url:
  "handleDownload_begin ''https://vm.tiktok.com/abc'' p =
     ((case abortController p of Val c \<Rightarrow> p\<lparr>aborted := c # aborted p\<rparr> | Undefined \<Rightarrow> p | Null \<Rightarrow> p)
        \<lparr> abortController := Val (controllers p), controllers := controllers p + 1,
          videoUrl_error := False, result_active := False, downloadBtn_loading := True \<rparr>,
      Some \<lparr>req_url = ''https://vm.tiktok.com/abc'', req_signal = controllers p\<rparr>)"
  using begin_accepted [of "''https://vm.tiktok.com/abc''" p] valid_short_url
  unfolding trim_short_url by simp

lemma resume_runs_finally:
  "\<not> downloadBtn_loading (handleDownload_resume outcome p) \<and>
   abortController (handleDownload_resume outcome p) = Null"
  by (simp add: handleDownload_resume_def handleDownload_finally_def setLoading_def Let_def
      split: prod.splits sum.splits option.splits)

text \<open>
  C1. Lookup A is started, and lookup B is started while A is in flight. B aborts A's
  signal, and A's fetch rejects with an AbortError. fetchTikTokData replaces that error
  by its generic Error, so the check for \<open>AbortError\<close> in handleDownload does not meet
  it: A's resumption marks the input as in error, shows the generic message in an error
  toast, ends the loading state and empties the slot of the controller, all while B is
  still in flight. The \<open>finally\<close> clause does the last two whatever A's fetch gave.
\<close>

theorem superseded_lookup_still_writes_the_page:
  "let urlA = ''https://www.tiktok.com/@a/video/1'';
       urlB = ''https://vm.tiktok.com/abc'';
       pA = fst (handleDownload_begin urlA p);
       pB = fst (handleDownload_begin urlB pA);
       q = handleDownload_resume (FetchRejected \<lparr>name = ''AbortError'', message = m\<rparr>) pB
   in snd (handleDownload_begin urlA p) = Some \<lparr>req_url = urlA, req_signal = controllers p\<rparr> \<and>
      snd (handleDownload_begin urlB pA) = Some \<lparr>req_url = urlB, req_signal = controllers p + 1\<rparr> \<and>
      aborted pB = controllers p # aborted pA \<and>
      abortController pB = Val (controllers p + 1) \<and>
      downloadBtn_loading pB \<and> \<not> videoUrl_error pB \<and>
      videoUrl_error q \<and> toast_active q \<and> toast_error q \<and>
      toastMessage q = ''Unable to fetch content. Please check the URL and try again.'' \<and>
      \<not> downloadBtn_loading q \<and> abortController q = Null \<and>
      \<not> downloadBtn_loading (handleDownload_resume outcome pB) \<and>
      abortController (handleDownload_resume outcome pB) = Null"
proof -
  define pA where "pA = fst (handleDownload_begin ''https://www.tiktok.com/@a/video/1'' p)"
  define pB where "pB = fst (handleDownload_begin ''https://vm.tiktok.com/abc'' pA)"
  define q where "q = handleDownload_resume (FetchRejected \<lparr>name = ''AbortError'', message = m\<rparr>) pB"
  have a: "abortController pA = Val (controllers p)" "controllers pA = controllers p + 1"
    unfolding pA_def begin_video_url by (simp_all split: js.splits)
  have b: "aborted pB = controllers p # aborted pA" "abortController pB = Val (controllers p + 1)"
    "downloadBtn_loading pB" "\<not> videoUrl_error pB"
    unfolding pB_def begin_short_url by (simp_all add: a)
  have "fetchTikTokData_try (FetchRejected \<lparr>name = ''AbortError'', message = m\<rparr>) =
          Inl \<lparr>name = ''AbortError'', message = m\<rparr>"
    by simp
  from failed_page [OF resume_failed [OF this], of pB]
  have c: "videoUrl_error q" "toast_active q" "toast_error q"
    "toastMessage q = ''Unable to fetch content. Please check the URL and try again.''"
    "\<not> downloadBtn_loading q" "abortController q = Null"
    unfolding q_def unable_to_fetch_def by blast+
  have r: "snd (handleDownload_begin ''https://www.tiktok.com/@a/video/1'' p) =
        Some \<lparr>req_url = ''https://www.tiktok.com/@a/video/1'', req_signal = controllers p\<rparr>"
    "snd (handleDownload_begin ''https://vm.tiktok.com/abc'' pA) =
        Some \<lparr>req_url = ''https://vm.tiktok.com/abc'', req_signal = controllers p + 1\<rparr>"
    unfolding begin_video_url begin_short_url by (simp_all add: a)
  from a b c r resume_runs_finally [of outcome pB] show ?thesis
    unfolding Let_def pA_def [symmetric] pB_def [symmetric] q_def [symmetric] by blast
qed

text \<open>
  C2. A response that is ok, parses and carries \<open>code = 1\<close> and
  \<open>msg = "rate limited"\<close> makes the \<open>try\<close> block throw an Error with that message;
  the \<open>catch\<close> clause of the same function logs it and throws the generic Error in its
  place, so the toast shows the generic message and not \<open>rate limited\<close>.
\<close>

theorem api_message_is_replaced_by_generic:
  "fetchTikTokData_try (JsonValue \<lparr>code = Val 1, msg = Val ''rate limited'', data = dt\<rparr>) =
     Inl (Error ''rate limited'') \<and>
   fetchTikTokData (JsonValue \<lparr>code = Val 1, msg = Val ''rate limited'', data = dt\<rparr>) =
     ([ConsoleError ''API Error:'' (Error ''rate limited'')], Inl (Error unable_to_fetch)) \<and>
   toastMessage
     (handleDownload_resume (JsonValue \<lparr>code = Val 1, msg = Val ''rate limited'', data = dt\<rparr>) p) =
     ''Unable to fetch content. Please check the URL and try again.'' \<and>
   toastMessage
     (handleDownload_resume (JsonValue \<lparr>code = Val 1, msg = Val ''rate limited'', data = dt\<rparr>) p) \<noteq>
     ''rate limited''"
proof -
  have t: "fetchTikTokData_try (JsonValue \<lparr>code = Val 1, msg = Val ''rate limited'', data = dt\<rparr>) =
     Inl (Error ''rate limited'')"
    by simp
  then have f: "fetchTikTokData (JsonValue \<lparr>code = Val 1, msg = Val ''rate limited'', data = dt\<rparr>) =
     ([ConsoleError ''API Error:'' (Error ''rate limited'')], Inl (Error unable_to_fetch))"
    by (simp add: fetchTikTokData_def)
  from failed_page [OF resume_failed [OF t], of p]
  have m: "toastMessage
     (handleDownload_resume (JsonValue \<lparr>code = Val 1, msg = Val ''rate limited'', data = dt\<rparr>) p) =
     ''Unable to fetch content. Please check the URL and try again.''"
    unfolding unable_to_fetch_def by blast
  from t f m show ?thesis by simp
qed

section \<open>Downloads\<close>






end
